theory Spec2Isabelle
  imports Complex_Main
begin

section \<open>Python values, errors and effects\<close>

text \<open>
  The evaluator of \<^verbatim>\<open>molpal/models/mpnn/evaluate.py\<close> never computes with its floats: it
  compares them with \<open>0\<close> and takes their truth value. A float is therefore a real number,
  an infinity or not-a-number; \<open>-0.0\<close> and \<open>0.0\<close> are both \<open>Fin 0\<close>, which is what
  \<^verbatim>\<open>== 0\<close> and \<^verbatim>\<open>bool\<close> see.
\<close>

datatype pyfloat = Fin real | PosInf | NegInf | NaN

text \<open>\<^verbatim>\<open>x == 0\<close> on a float: false for the infinities and for not-a-number.\<close>

fun eq_zero :: "pyfloat \<Rightarrow> bool" where
  "eq_zero (Fin r) = (r = 0)"
| "eq_zero PosInf = False"
| "eq_zero NegInf = False"
| "eq_zero NaN = False"

text \<open>\<^verbatim>\<open>bool(x)\<close> on a float: everything but zero is true, not-a-number included.\<close>

fun truthy :: "pyfloat \<Rightarrow> bool" where
  "truthy (Fin r) = (r \<noteq> 0)"
| "truthy PosInf = True"
| "truthy NegInf = True"
| "truthy NaN = True"

datatype error =
    IndexError
  | NotImplementedError string
  | Raised string

text \<open>\<^verbatim>\<open>xs[i]\<close> for an index produced by \<^verbatim>\<open>range\<close>: out of range raises.\<close>

definition getitem :: "'a list \<Rightarrow> nat \<Rightarrow> error + 'a" where
  "getitem xs i = (if i < length xs then Inr (xs ! i) else Inl IndexError)"

text \<open>\<^verbatim>\<open>m[i][j]\<close>: the row is read first, then the entry.\<close>

definition getitem2 :: "'a list list \<Rightarrow> nat \<Rightarrow> nat \<Rightarrow> error + 'a" where
  "getitem2 m i j = (case getitem m i of Inl e \<Rightarrow> Inl e | Inr row \<Rightarrow> getitem row j)"

text \<open>
  What a call of the evaluator does besides returning: messages given to the logger's
  \<^verbatim>\<open>info\<close>, messages printed, and calls of the metric function with their arguments
  (targets first, as the source passes them).
\<close>

datatype 'l event =
    Logger_info 'l string
  | Printed string
  | Metric_called "pyfloat list" "pyfloat list"

text \<open>\<^verbatim>\<open>info = logger.info if logger is not None else print\<close>\<close>

definition info :: "'l option \<Rightarrow> string \<Rightarrow> 'l event" where
  "info logger msg = (case logger of Some l \<Rightarrow> Logger_info l msg | None \<Rightarrow> Printed msg)"

section \<open>The store of list objects\<close>

text \<open>
  \<^verbatim>\<open>[[]] * num_tasks\<close> builds one empty list object and a list of \<^verbatim>\<open>num_tasks\<close>
  references to it. The list objects live in a store, a reference is an index into it,
  and \<^verbatim>\<open>append\<close> updates the object a reference points to.
\<close>

type_synonym addr = nat
type_synonym store = "pyfloat list list"

definition alloc :: "store \<Rightarrow> pyfloat list \<Rightarrow> store \<times> addr" where
  "alloc h v = (h @ [v], length h)"

definition append_at :: "store \<Rightarrow> addr \<Rightarrow> pyfloat \<Rightarrow> store" where
  "append_at h a x = h[a := h ! a @ [x]]"

section \<open>evaluate_predictions\<close>

text \<open>
  The inner loop \<^verbatim>\<open>for i in range(len(preds))\<close> at a fixed task \<open>j\<close>, over the examples
  still to visit. \<^verbatim>\<open>targets[i][j]\<close> is read before \<^verbatim>\<open>preds[i][j]\<close>, and the
  prediction is not read at all where the target is \<^verbatim>\<open>None\<close>.
\<close>

fun filter_examples ::
  "pyfloat list list \<Rightarrow> pyfloat option list list \<Rightarrow> addr list \<Rightarrow> addr list \<Rightarrow> nat \<Rightarrow>
   nat list \<Rightarrow> store \<Rightarrow> error + store" where
  "filter_examples P G valid_preds valid_targets j [] h = Inr h"
| "filter_examples P G valid_preds valid_targets j (i # is) h =
     (case getitem2 G i j of
        Inl e \<Rightarrow> Inl e
      | Inr None \<Rightarrow> filter_examples P G valid_preds valid_targets j is h
      | Inr (Some t) \<Rightarrow>
          (case getitem2 P i j of
             Inl e \<Rightarrow> Inl e
           | Inr p \<Rightarrow>
               filter_examples P G valid_preds valid_targets j is
                 (append_at (append_at h (valid_preds ! j) p) (valid_targets ! j) t)))"

text \<open>The outer loop \<^verbatim>\<open>for j in range(num_tasks)\<close>, over the tasks still to visit.\<close>

fun filter_tasks ::
  "pyfloat list list \<Rightarrow> pyfloat option list list \<Rightarrow> addr list \<Rightarrow> addr list \<Rightarrow>
   nat list \<Rightarrow> store \<Rightarrow> error + store" where
  "filter_tasks P G valid_preds valid_targets [] h = Inr h"
| "filter_tasks P G valid_preds valid_targets (j # js) h =
     (case filter_examples P G valid_preds valid_targets j [0..<length P] h of
        Inl e \<Rightarrow> Inl e
      | Inr h' \<Rightarrow> filter_tasks P G valid_preds valid_targets js h')"

text \<open>
  Lines 31 to 40: the two lists of references and the store after the loops. A negative
  \<^verbatim>\<open>num_tasks\<close> gives an empty list and an empty range, as \<open>nat\<close> does.
\<close>

definition filter_phase ::
  "pyfloat list list \<Rightarrow> pyfloat option list list \<Rightarrow> int \<Rightarrow>
   error + (addr list \<times> addr list \<times> store)" where
  "filter_phase P G num_tasks =
     (let (h1, a) = alloc [] [];
          valid_preds = replicate (nat num_tasks) a;
          (h2, b) = alloc h1 [];
          valid_targets = replicate (nat num_tasks) b
      in case filter_tasks P G valid_preds valid_targets [0..<nat num_tasks] h2 of
           Inl e \<Rightarrow> Inl e
         | Inr h \<Rightarrow> Inr (valid_preds, valid_targets, h))"

text \<open>
  Lines 43 to 65: the loop over \<^verbatim>\<open>zip(valid_preds, valid_targets)\<close>, with the results and
  the events so far. The metric function is the pure function of the specification's
  section 6, called with the targets first. The two tests nested under
  \<^verbatim>\<open>dataset_type == 'classification'\<close> are written as two branches that each repeat that
  condition; both lists are read from the store when the task is reached.
\<close>

fun compute_metric ::
  "(pyfloat list \<Rightarrow> pyfloat list \<Rightarrow> pyfloat) \<Rightarrow> string \<Rightarrow> 'l option \<Rightarrow> store \<Rightarrow>
   (addr \<times> addr) list \<Rightarrow> pyfloat list \<Rightarrow> 'l event list \<Rightarrow> pyfloat list \<times> 'l event list" where
  "compute_metric metric_func dataset_type logger h [] results tr = (results, tr)"
| "compute_metric metric_func dataset_type logger h ((a, b) # rest) results tr =
     (let preds = h ! a; tgts = h ! b in
      if dataset_type = ''classification'' \<and> (list_all eq_zero tgts \<or> list_all truthy tgts)
      then compute_metric metric_func dataset_type logger h rest (results @ [NaN])
             (tr @ [info logger ''Warning: Found a task with targets all 0s or all 1s''])
      else if dataset_type = ''classification'' \<and> (list_all eq_zero preds \<or> list_all truthy preds)
      then compute_metric metric_func dataset_type logger h rest (results @ [NaN])
             (tr @ [info logger ''Warning: Found a task with predictions all 0s or all 1s''])
      else if length tgts = 0
      then compute_metric metric_func dataset_type logger h rest results tr
      else compute_metric metric_func dataset_type logger h rest
             (results @ [metric_func tgts preds]) (tr @ [Metric_called tgts preds]))"

definition evaluate_predictions ::
  "pyfloat list list \<Rightarrow> pyfloat option list list \<Rightarrow> int \<Rightarrow>
   (pyfloat list \<Rightarrow> pyfloat list \<Rightarrow> pyfloat) \<Rightarrow> string \<Rightarrow> 'l option \<Rightarrow>
   error + (pyfloat list \<times> 'l event list)" where
  "evaluate_predictions P G num_tasks metric_func dataset_type logger =
     (if length P = 0 then Inr (replicate (nat num_tasks) NaN, [])
      else case filter_phase P G num_tasks of
             Inl e \<Rightarrow> Inl e
           | Inr (valid_preds, valid_targets, h) \<Rightarrow>
               Inr (compute_metric metric_func dataset_type logger h
                      (zip valid_preds valid_targets) [] []))"


section \<open>What the specification calls the valid pairs of a task\<close>

text \<open>
  The specification's per-task valid pairs, in its own words: for task \<open>j\<close>, scan the
  examples in order; where \<open>G[i][j]\<close> is missing, skip; else keep \<open>P[i][j]\<close>
  (respectively \<open>G[i][j]\<close>). \<open>kept_preds\<close> and \<open>kept_targets\<close> do so over any list
  of example indices, \<open>spec_valid_preds\<close> and \<open>spec_valid_targets\<close> over all of them.
\<close>

definition kept_preds ::
  "pyfloat list list \<Rightarrow> pyfloat option list list \<Rightarrow> nat \<Rightarrow> nat list \<Rightarrow> pyfloat list" where
  "kept_preds P G j is =
     concat (map (\<lambda>i. case G ! i ! j of None \<Rightarrow> [] | Some t \<Rightarrow> [P ! i ! j]) is)"

definition kept_targets :: "pyfloat option list list \<Rightarrow> nat \<Rightarrow> nat list \<Rightarrow> pyfloat list" where
  "kept_targets G j is =
     concat (map (\<lambda>i. case G ! i ! j of None \<Rightarrow> [] | Some t \<Rightarrow> [t]) is)"

definition spec_valid_preds ::
  "pyfloat list list \<Rightarrow> pyfloat option list list \<Rightarrow> nat \<Rightarrow> pyfloat list" where
  "spec_valid_preds P G j = kept_preds P G j [0..<length P]"

definition spec_valid_targets ::
  "pyfloat list list \<Rightarrow> pyfloat option list list \<Rightarrow> nat \<Rightarrow> pyfloat list" where
  "spec_valid_targets P G j = kept_targets G j [0..<length P]"

text \<open>
  The shape the docstring gives both matrices: \<^verbatim>\<open>(data_size, num_tasks)\<close>, with as many
  target rows as prediction rows.
\<close>

definition same_shape :: "pyfloat list list \<Rightarrow> pyfloat option list list \<Rightarrow> int \<Rightarrow> bool" where
  "same_shape P G num_tasks \<longleftrightarrow>
     length G = length P
     \<and> list_all (\<lambda>row. length row = nat num_tasks) P
     \<and> list_all (\<lambda>row. length row = nat num_tasks) G"

text \<open>Every entry of the target matrix is \<^verbatim>\<open>None\<close>.\<close>

definition all_missing :: "pyfloat option list list \<Rightarrow> bool" where
  "all_missing G = list_all (list_all (\<lambda>t. t = None)) G"

text \<open>\<^verbatim>\<open>valid_preds[j]\<close>, read through its reference.\<close>

definition valid_list :: "store \<Rightarrow> addr list \<Rightarrow> nat \<Rightarrow> pyfloat list" where
  "valid_list h refs j = h ! (refs ! j)"

section \<open>evaluate\<close>

text \<open>
  A batch of the data loader, through its only method the source calls:
  \<^verbatim>\<open>batch.batch_graph()\<close> returns the model's input or raises. The data loader is the
  sequence of its batches and its \<^verbatim>\<open>targets\<close> attribute.
\<close>

record 'g batch =
  batch_graph :: "error + 'g"

record 'g data_loader =
  batches :: "'g batch list"
  targets :: "pyfloat option list list"

text \<open>
  The generator \<^verbatim>\<open>batch_graphs(data_loader)\<close>: one conversion per batch, in order. An
  element \<open>Inl e\<close> is a conversion that raises when the consumer asks for it.
\<close>

definition batch_graphs :: "'g data_loader \<Rightarrow> (error + 'g) list" where
  "batch_graphs data_loader = map batch_graph (batches data_loader)"

text \<open>
  Modelled from the spec: \<^verbatim>\<open>predict\<close> of \<^verbatim>\<open>molpal/models/mpnn/predict.py\<close>, which
  \<^verbatim>\<open>evaluate\<close> imports and which is not among the sources. The specification (4.3) has
  it apply the model to each batch in sequence, optionally un-scale the raw outputs with
  the rescaling transform, and recover from nothing: a failure of a conversion or of the
  model propagates. \<open>run_batches\<close> is that loop (a batch is converted, then given to the
  model, before the next one is asked for), \<open>unscale\<close> the optional transform.
\<close>

fun run_batches ::
  "('g \<Rightarrow> error + pyfloat list list) \<Rightarrow> (error + 'g) list \<Rightarrow> error + pyfloat list list" where
  "run_batches m [] = Inr []"
| "run_batches m (x # xs) =
     (case x of
        Inl e \<Rightarrow> Inl e
      | Inr g \<Rightarrow>
          (case m g of
             Inl e \<Rightarrow> Inl e
           | Inr out \<Rightarrow>
               (case run_batches m xs of
                  Inl e \<Rightarrow> Inl e
                | Inr outs \<Rightarrow> Inr (out @ outs))))"

definition unscale ::
  "(pyfloat list list \<Rightarrow> pyfloat list list) option \<Rightarrow> pyfloat list list \<Rightarrow> pyfloat list list" where
  "unscale scaler raw =
     (case scaler of None \<Rightarrow> raw | Some inverse_transform \<Rightarrow> inverse_transform raw)"

definition predict ::
  "('g \<Rightarrow> error + pyfloat list list) \<Rightarrow> (error + 'g) list \<Rightarrow>
   (pyfloat list list \<Rightarrow> pyfloat list list) option \<Rightarrow> error + pyfloat list list" where
  "predict m graphs scaler =
     (case run_batches m graphs of
        Inl e \<Rightarrow> Inl e
      | Inr raw \<Rightarrow> Inr (unscale scaler raw))"

text \<open>
  Lines 67 to 95. \<^verbatim>\<open>data_loader.targets\<close> is read after \<^verbatim>\<open>predict\<close> has returned, and
  the result of \<^verbatim>\<open>evaluate_predictions\<close> is returned as it is.
\<close>

definition evaluate ::
  "('g \<Rightarrow> error + pyfloat list list) \<Rightarrow> 'g data_loader \<Rightarrow> int \<Rightarrow>
   (pyfloat list \<Rightarrow> pyfloat list \<Rightarrow> pyfloat) \<Rightarrow> string \<Rightarrow>
   (pyfloat list list \<Rightarrow> pyfloat list list) option \<Rightarrow> 'l option \<Rightarrow>
   error + (pyfloat list \<times> 'l event list)" where
  "evaluate m data_loader num_tasks metric_func dataset_type scaler logger =
     (case predict m (batch_graphs data_loader) scaler of
        Inl e \<Rightarrow> Inl e
      | Inr preds \<Rightarrow>
          evaluate_predictions preds (targets data_loader) num_tasks metric_func dataset_type
            logger)"

section \<open>The model factory\<close>

text \<open>
  The classes \<^verbatim>\<open>molpal/models/__init__.py\<close> imports, and the family each belongs to: the
  two scikit-learn models, the classes of \<^verbatim>\<open>nnmodels\<close> and those of \<^verbatim>\<open>mpnmodels\<close>.
\<close>

datatype model_class =
    RFModel | GPModel
  | NNModel | NNDropoutModel | NNEnsembleModel | NNTwoOutputModel
  | MPNModel | MPNDropoutModel | MPNTwoOutputModel

datatype family = Random_forest | Gaussian_process | Feed_forward_nn | Message_passing_nn

fun family_of :: "model_class \<Rightarrow> family" where
  "family_of RFModel = Random_forest"
| "family_of GPModel = Gaussian_process"
| "family_of NNModel = Feed_forward_nn"
| "family_of NNDropoutModel = Feed_forward_nn"
| "family_of NNEnsembleModel = Feed_forward_nn"
| "family_of NNTwoOutputModel = Feed_forward_nn"
| "family_of MPNModel = Message_passing_nn"
| "family_of MPNDropoutModel = Message_passing_nn"
| "family_of MPNTwoOutputModel = Message_passing_nn"

text \<open>
  Keyword arguments: the keyword \<^verbatim>\<open>conf_method\<close>, typed \<^verbatim>\<open>Optional[str]\<close> by the
  signatures of \<^verbatim>\<open>nn\<close> and \<^verbatim>\<open>mpn\<close> (\<open>None\<close>: not passed; \<open>Some None\<close>: passed as
  \<^verbatim>\<open>None\<close>), and all the others, which the factory only hands on. An object is the class
  it was built from and the keyword arguments its constructor received; the constructors
  themselves are outside these sources.
\<close>

record 'a kwargs =
  conf_method :: "string option option"
  others :: "(string \<times> 'a) list"

datatype 'a model_instance = Instance (class_of: model_class) (init_kwargs: "'a kwargs")

text \<open>The f-string's \<^verbatim>\<open>"{...}"\<close>: the text between two double quotes.\<close>

definition quoted :: "string \<Rightarrow> string" where
  "quoted s = CHR 0x22 # s @ [CHR 0x22]"

text \<open>The dictionary literal of \<^verbatim>\<open>nn\<close>, and \<^verbatim>\<open>nn\<close> (lines 28 to 46).\<close>

definition nn_classes :: "(string \<times> model_class) list" where
  "nn_classes =
     [(''dropout'', NNDropoutModel),
      (''ensemble'', NNEnsembleModel),
      (''twooutput'', NNTwoOutputModel),
      (''mve'', NNTwoOutputModel),
      (''none'', NNModel)]"

definition nn :: "string option \<Rightarrow> (string \<times> 'a) list \<Rightarrow> error + 'a model_instance" where
  "nn cm kw =
     (case cm of
        None \<Rightarrow> Inr (Instance NNModel \<lparr>conf_method = None, others = kw\<rparr>)
      | Some s \<Rightarrow>
          (case map_of nn_classes s of
             Some cls \<Rightarrow> Inr (Instance cls \<lparr>conf_method = Some (Some s), others = kw\<rparr>)
           | None \<Rightarrow>
               Inl (NotImplementedError (''Unrecognized NN confidence method: '' @ quoted s))))"

text \<open>The dictionary literal of \<^verbatim>\<open>mpn\<close>, and \<^verbatim>\<open>mpn\<close> (lines 48 to 65).\<close>

definition mpn_classes :: "(string \<times> model_class) list" where
  "mpn_classes =
     [(''dropout'', MPNDropoutModel),
      (''twooutput'', MPNTwoOutputModel),
      (''mve'', MPNTwoOutputModel),
      (''none'', MPNModel)]"

definition mpn :: "string option \<Rightarrow> (string \<times> 'a) list \<Rightarrow> error + 'a model_instance" where
  "mpn cm kw =
     (case cm of
        None \<Rightarrow> Inr (Instance MPNModel \<lparr>conf_method = None, others = kw\<rparr>)
      | Some s \<Rightarrow>
          (case map_of mpn_classes s of
             Some cls \<Rightarrow> Inr (Instance cls \<lparr>conf_method = Some (Some s), others = kw\<rparr>)
           | None \<Rightarrow>
               Inl (NotImplementedError (''Unrecognized MPN confidence method: '' @ quoted s))))"

text \<open>
  \<^verbatim>\<open>nn(**kwargs)\<close> binds the parameter \<^verbatim>\<open>conf_method\<close> to the keyword of that name, or to
  its default \<^verbatim>\<open>None\<close> when the keyword is not passed.
\<close>

definition bound_conf_method :: "'a kwargs \<Rightarrow> string option" where
  "bound_conf_method kw = (case conf_method kw of None \<Rightarrow> None | Some c \<Rightarrow> c)"

text \<open>\<^verbatim>\<open>model\<close> (lines 10 to 26).\<close>

definition model :: "string \<Rightarrow> 'a kwargs \<Rightarrow> error + 'a model_instance" where
  "model m kw =
     (if m = ''rf'' then Inr (Instance RFModel kw)
      else if m = ''gp'' then Inr (Instance GPModel kw)
      else if m = ''nn'' then nn (bound_conf_method kw) (others kw)
      else if m = ''mpn'' then mpn (bound_conf_method kw) (others kw)
      else Inl (NotImplementedError (''Unrecognized model: '' @ quoted m)))"

text \<open>
  The keyword arguments a family's factory accepts: \<^verbatim>\<open>conf_method\<close> not passed, passed
  as \<^verbatim>\<open>None\<close>, or a key of the family's dictionary.
\<close>

definition accepted :: "(string \<times> model_class) list \<Rightarrow> 'a kwargs \<Rightarrow> bool" where
  "accepted classes kw =
     (case bound_conf_method kw of None \<Rightarrow> True | Some s \<Rightarrow> s \<in> set (map fst classes))"

section \<open>Properties of the store and of the two loops\<close>

lemma append_at_twice:
  "a \<noteq> b \<Longrightarrow> a < length h \<Longrightarrow> b < length h \<Longrightarrow>
   append_at (append_at (h[a := xs, b := ys]) a p) b t = h[a := xs @ [p], b := ys @ [t]]"
  by (auto simp: append_at_def list_eq_iff_nth_eq nth_list_update)

lemma filter_examples_shared:
  assumes "a \<noteq> b" "a < length h" "b < length h" "vp ! j = a" "vt ! j = b"
    and "\<forall>i\<in>set is. i < length G \<and> i < length P \<and> j < length (G ! i) \<and> j < length (P ! i)"
  shows "filter_examples P G vp vt j is (h[a := xs, b := ys])
           = Inr (h[a := xs @ kept_preds P G j is, b := ys @ kept_targets G j is])"
  using assms(6)
proof (induction "is" arbitrary: xs ys)
  case Nil
  then show ?case by (simp add: kept_preds_def kept_targets_def)
next
  case (Cons i "is")
  have rd: "getitem2 G i j = Inr (G ! i ! j)" "getitem2 P i j = Inr (P ! i ! j)"
    using Cons.prems by (simp_all add: getitem2_def getitem_def)
  show ?case
  proof (cases "G ! i ! j")
    case None
    then show ?thesis using Cons rd by (simp add: kept_preds_def kept_targets_def)
  next
    case (Some t)
    have "filter_examples P G vp vt j (i # is) (h[a := xs, b := ys])
            = filter_examples P G vp vt j is (h[a := xs @ [P ! i ! j], b := ys @ [t]])"
      using rd Some assms(1-5) by (simp add: append_at_twice)
    also have "\<dots> = Inr (h[a := (xs @ [P ! i ! j]) @ kept_preds P G j is,
                           b := (ys @ [t]) @ kept_targets G j is])"
      using Cons by simp
    finally show ?thesis using Some by (simp add: kept_preds_def kept_targets_def)
  qed
qed

lemma filter_tasks_shared:
  assumes "a \<noteq> b" "a < length h" "b < length h"
    and "\<forall>j\<in>set js. vp ! j = a \<and> vt ! j = b"
    and "\<forall>j\<in>set js. \<forall>i<length P. i < length G \<and> j < length (G ! i) \<and> j < length (P ! i)"
  shows "filter_tasks P G vp vt js (h[a := xs, b := ys])
           = Inr (h[a := xs @ concat (map (spec_valid_preds P G) js),
                    b := ys @ concat (map (spec_valid_targets P G) js)])"
  using assms(4,5)
proof (induction js arbitrary: xs ys)
  case Nil
  then show ?case by simp
next
  case (Cons j js)
  have "filter_examples P G vp vt j [0..<length P] (h[a := xs, b := ys])
          = Inr (h[a := xs @ spec_valid_preds P G j, b := ys @ spec_valid_targets P G j])"
    unfolding spec_valid_preds_def spec_valid_targets_def
    using Cons.prems assms(1-3) by (intro filter_examples_shared) auto
  then show ?case using Cons by simp
qed

lemma filter_phase_shared:
  assumes "same_shape P G T"
  shows "filter_phase P G T
           = Inr (replicate (nat T) 0, replicate (nat T) (Suc 0),
                  [concat (map (spec_valid_preds P G) [0..<nat T]),
                   concat (map (spec_valid_targets P G) [0..<nat T])])"
proof -
  have sh: "\<forall>j\<in>set [0..<nat T]. \<forall>i<length P.
              i < length G \<and> j < length (G ! i) \<and> j < length (P ! i)"
    using assms by (auto simp: same_shape_def list_all_length)
  have "filter_tasks P G (replicate (nat T) 0) (replicate (nat T) (Suc 0)) [0..<nat T]
          ([[], []][0 := [], Suc 0 := []])
        = Inr ([[], []][0 := [] @ concat (map (spec_valid_preds P G) [0..<nat T]),
                 Suc 0 := [] @ concat (map (spec_valid_targets P G) [0..<nat T])])"
    using sh by (intro filter_tasks_shared) auto
  then show ?thesis by (simp add: filter_phase_def alloc_def)
qed

lemma kept_targets_empty:
  "kept_targets G j is = [] \<longleftrightarrow> (\<forall>i\<in>set is. G ! i ! j = None)"
  by (auto simp: kept_targets_def split: option.splits)

lemma shared_targets_empty:
  assumes "same_shape P G T"
  shows "concat (map (spec_valid_targets P G) [0..<nat T]) = [] \<longleftrightarrow> all_missing G"
proof -
  have "concat (map (spec_valid_targets P G) [0..<nat T]) = []
          \<longleftrightarrow> (\<forall>j<nat T. \<forall>i<length P. G ! i ! j = None)"
    by (auto simp: spec_valid_targets_def kept_targets_empty)
  also have "\<dots> \<longleftrightarrow> (\<forall>i<length G. \<forall>j<length (G ! i). G ! i ! j = None)"
    using assms by (auto simp: same_shape_def list_all_length)
  also have "\<dots> \<longleftrightarrow> all_missing G"
    by (simp add: all_missing_def list_all_length)
  finally show ?thesis .
qed

lemma compute_metric_shared_scored:
  assumes "dataset_type \<noteq> ''classification''" "h ! b \<noteq> []"
  shows "compute_metric f dataset_type lg h (replicate n (a, b)) rs tr
           = (rs @ replicate n (f (h ! b) (h ! a)),
              tr @ replicate n (Metric_called (h ! b) (h ! a)))"
  using assms
  by (induction n arbitrary: rs tr) (simp_all add: Let_def replicate_app_Cons_same)

lemma compute_metric_shared_skipped:
  assumes "dataset_type \<noteq> ''classification''" "h ! b = []"
  shows "compute_metric f dataset_type lg h (replicate n (a, b)) rs tr = (rs, tr)"
  using assms by (induction n arbitrary: rs tr) (simp_all add: Let_def)

lemmas run_simps =
  evaluate_predictions_def filter_phase_def alloc_def append_at_def getitem2_def getitem_def
  spec_valid_preds_def spec_valid_targets_def kept_preds_def kept_targets_def
  upt_rec numeral_2_eq_2 Let_def

section \<open>Properties of the batch loop and of the factory\<close>

lemma run_batches_all:
  "map m gs = map Inr outs \<Longrightarrow> run_batches m (map Inr gs) = Inr (concat outs)"
proof (induction gs arbitrary: outs)
  case Nil
  then show ?case by simp
next
  case (Cons g gs)
  then obtain out rest where "outs = out # rest" "m g = Inr out" "map m gs = map Inr rest"
    by (cases outs) auto
  then show ?case using Cons.IH by simp
qed

lemma run_batches_first_failure:
  assumes "map m gs = map Inr outs"
    and "x = Inl e \<or> (\<exists>g. x = Inr g \<and> m g = Inl e)"
  shows "run_batches m (map Inr gs @ x # rest) = Inl e"
  using assms(1)
proof (induction gs arbitrary: outs)
  case Nil
  then show ?case using assms(2) by auto
next
  case (Cons g gs)
  then obtain out rest' where "outs = out # rest'" "m g = Inr out" "map m gs = map Inr rest'"
    by (cases outs) auto
  then show ?case using Cons.IH by simp
qed

lemma nn_family:
  "map_of nn_classes s = Some cls \<Longrightarrow> family_of cls = Feed_forward_nn"
  by (auto simp: nn_classes_def split: if_splits)

lemma mpn_family:
  "map_of mpn_classes s = Some cls \<Longrightarrow> family_of cls = Message_passing_nn"
  by (auto simp: mpn_classes_def split: if_splits)

lemma nn_accepted:
  assumes "accepted nn_classes kw"
  shows "\<exists>inst. nn (bound_conf_method kw) (others kw) = Inr inst
           \<and> family_of (class_of inst) = Feed_forward_nn"
proof (cases "bound_conf_method kw")
  case None
  then show ?thesis by (simp add: nn_def)
next
  case (Some s)
  then have "s \<in> fst ` set nn_classes" using assms by (simp add: accepted_def)
  then obtain cls where c: "map_of nn_classes s = Some cls"
    by (metis domD dom_map_of_conv_image_fst)
  then show ?thesis using Some nn_family[OF c] by (simp add: nn_def)
qed

lemma mpn_accepted:
  assumes "accepted mpn_classes kw"
  shows "\<exists>inst. mpn (bound_conf_method kw) (others kw) = Inr inst
           \<and> family_of (class_of inst) = Message_passing_nn"
proof (cases "bound_conf_method kw")
  case None
  then show ?thesis by (simp add: mpn_def)
next
  case (Some s)
  then have "s \<in> fst ` set mpn_classes" using assms by (simp add: accepted_def)
  then obtain cls where c: "map_of mpn_classes s = Some cls"
    by (metis domD dom_map_of_conv_image_fst)
  then show ?thesis using Some mpn_family[OF c] by (simp add: mpn_def)
qed

section \<open>The filtering phase\<close>

text \<open>
  C10. The two lists of references each point \<^verbatim>\<open>num_tasks\<close> times to one list object. For
  matrices of the documented shape, with at least one task and one example, the filtering
  phase returns normally and, for every task \<open>j\<close>, \<^verbatim>\<open>valid_preds[j]\<close> is the same object as
  \<^verbatim>\<open>valid_preds[0]\<close>: the concatenation, over the tasks \<open>k = 0, ..., num_tasks - 1\<close> in
  order, of the predictions of column \<open>k\<close> whose target is not missing; likewise
  \<^verbatim>\<open>valid_targets[j]\<close> with the targets. Hence, for a dataset type other than
  \<^verbatim>\<open>'classification'\<close> (regression among them), the result has \<open>num_tasks\<close> elements when
  some target of the matrix is not missing and none when all are missing.
\<close>

theorem shared_list_aliasing:
  assumes "same_shape P G T" and "1 \<le> T" and "P \<noteq> []"
  shows "(\<exists>vp vt h. filter_phase P G T = Inr (vp, vt, h)
            \<and> length vp = nat T \<and> length vt = nat T
            \<and> (\<forall>j<nat T.
                  vp ! j = vp ! 0 \<and> vt ! j = vt ! 0
                  \<and> valid_list h vp j = concat (map (spec_valid_preds P G) [0..<nat T])
                  \<and> valid_list h vt j = concat (map (spec_valid_targets P G) [0..<nat T])))
       \<and> (dataset_type \<noteq> ''classification'' \<longrightarrow>
            (\<exists>rs tr. evaluate_predictions P G T f dataset_type lg = Inr (rs, tr)
               \<and> length rs = (if all_missing G then 0 else nat T)))"
proof -
  let ?ps = "concat (map (spec_valid_preds P G) [0..<nat T])"
  let ?ts = "concat (map (spec_valid_targets P G) [0..<nat T])"
  let ?h = "[?ps, ?ts]"
  have ph: "filter_phase P G T = Inr (replicate (nat T) 0, replicate (nat T) (Suc 0), ?h)"
    using assms(1) by (rule filter_phase_shared)
  have first: "\<exists>vp vt h. filter_phase P G T = Inr (vp, vt, h)
            \<and> length vp = nat T \<and> length vt = nat T
            \<and> (\<forall>j<nat T.
                  vp ! j = vp ! 0 \<and> vt ! j = vt ! 0
                  \<and> valid_list h vp j = ?ps \<and> valid_list h vt j = ?ts)"
    using assms(2) unfolding ph by (simp add: valid_list_def)
  have second: "\<exists>rs tr. evaluate_predictions P G T f dataset_type lg = Inr (rs, tr)
               \<and> length rs = (if all_missing G then 0 else nat T)"
    if reg: "dataset_type \<noteq> ''classification''"
  proof (cases "all_missing G")
    case True
    then have "?h ! Suc 0 = []" using shared_targets_empty[OF assms(1)] by simp
    then have "compute_metric f dataset_type lg ?h (replicate (nat T) (0, Suc 0)) [] [] = ([], [])"
      using reg by (rule compute_metric_shared_skipped[rotated])
    then show ?thesis using True assms(3) ph
      by (simp add: evaluate_predictions_def zip_replicate)
  next
    case False
    then have "?h ! Suc 0 \<noteq> []" using shared_targets_empty[OF assms(1)] by simp
    then have "compute_metric f dataset_type lg ?h (replicate (nat T) (0, Suc 0)) [] []
          = ([] @ replicate (nat T) (f (?h ! Suc 0) (?h ! 0)),
             [] @ replicate (nat T) (Metric_called (?h ! Suc 0) (?h ! 0)))"
      using reg by (rule compute_metric_shared_scored[rotated])
    then show ?thesis using False assms(3) ph
      by (simp add: evaluate_predictions_def zip_replicate)
  qed
  show ?thesis using first second by blast
qed

theorem shared_list_aliasing_witness:
  "same_shape [[Fin 1, Fin 2], [Fin 3, Fin 4]] [[Some (Fin 10), None], [None, Some (Fin 40)]] 2
   \<and> (1::int) \<le> 2
   \<and> [[Fin 1, Fin 2], [Fin 3, Fin 4]] \<noteq> []
   \<and> ''regression'' \<noteq> ''classification''
   \<and> \<not> all_missing [[Some (Fin 10), None], [None, Some (Fin 40)]]
   \<and> filter_phase [[Fin 1, Fin 2], [Fin 3, Fin 4]] [[Some (Fin 10), None], [None, Some (Fin 40)]] 2
       = Inr ([0, 0], [1, 1], [[Fin 1, Fin 4], [Fin 10, Fin 40]])
   \<and> (\<exists>rs tr. evaluate_predictions [[Fin 1, Fin 2], [Fin 3, Fin 4]]
                  [[Some (Fin 10), None], [None, Some (Fin 40)]] 2 (\<lambda>ts ps. NaN) ''regression''
                  (None :: unit option) = Inr (rs, tr)
         \<and> length rs = 2)"
proof -
  let ?P = "[[Fin 1, Fin 2], [Fin 3, Fin 4]]"
  let ?G = "[[Some (Fin 10), None], [None, Some (Fin 40)]]"
  have h1: "same_shape ?P ?G 2" by (simp add: same_shape_def)
  have h2: "(1::int) \<le> 2" by simp
  have h3: "?P \<noteq> []" by simp
  have h4: "''regression'' \<noteq> ''classification''" by simp
  have h5: "\<not> all_missing ?G" by (simp add: all_missing_def)
  have ph: "filter_phase ?P ?G 2 = Inr ([0, 0], [1, 1], [[Fin 1, Fin 4], [Fin 10, Fin 40]])"
    by (simp add: run_simps)
  from shared_list_aliasing [OF h1 h2 h3, of "''regression''" "\<lambda>ts ps. NaN" "None :: unit option"]
  have "\<exists>rs tr. evaluate_predictions ?P ?G 2 (\<lambda>ts ps. NaN) ''regression'' (None :: unit option)
                  = Inr (rs, tr) \<and> length rs = 2"
    using h4 h5 by simp
  then show ?thesis using h1 h3 h5 ph by simp
qed

text \<open>
  C1. The specification has \<^verbatim>\<open>valid_preds[j]\<close> hold the predictions of task \<open>j\<close> alone.
  On two examples and two tasks, where only the first target of the second example is
  missing, the filtering phase leaves one shared list behind both entries of
  \<^verbatim>\<open>valid_preds\<close>, holding the predictions of task 0 followed by those of task 1, while the
  valid predictions of task 0 are \<open>[1]\<close> and those of task 1 are \<open>[2, 4]\<close>.
\<close>

theorem filter_phase_mixes_tasks:
  "filter_phase [[Fin 1, Fin 2], [Fin 3, Fin 4]]
       [[Some (Fin 10), Some (Fin 20)], [None, Some (Fin 40)]] 2
     = Inr ([0, 0], [1, 1], [[Fin 1, Fin 2, Fin 4], [Fin 10, Fin 20, Fin 40]])
   \<and> spec_valid_preds [[Fin 1, Fin 2], [Fin 3, Fin 4]]
        [[Some (Fin 10), Some (Fin 20)], [None, Some (Fin 40)]] 0 = [Fin 1]
   \<and> spec_valid_targets [[Fin 1, Fin 2], [Fin 3, Fin 4]]
        [[Some (Fin 10), Some (Fin 20)], [None, Some (Fin 40)]] 0 = [Fin 10]
   \<and> spec_valid_preds [[Fin 1, Fin 2], [Fin 3, Fin 4]]
        [[Some (Fin 10), Some (Fin 20)], [None, Some (Fin 40)]] 1 = [Fin 2, Fin 4]"
  by (simp add: run_simps)

section \<open>The results of evaluate_predictions\<close>

text \<open>
  C2. With no example at all, \<^verbatim>\<open>evaluate_predictions\<close> returns \<^verbatim>\<open>num_tasks\<close> not-a-number
  sentinels, whatever the targets (even ragged or empty ones, which the filtering would
  reject), the metric function, the dataset type and the logger; nothing is logged and the
  metric function is not called. For a task count \<open>T \<ge> 0\<close> the list has exactly \<open>T\<close>
  elements.
\<close>

theorem evaluate_predictions_no_examples:
  "evaluate_predictions [] G T metric_func dataset_type logger
     = Inr (replicate (nat T) NaN, [])
   \<and> (0 \<le> T \<longrightarrow> int (length (replicate (nat T) NaN)) = T)"
  by (simp add: evaluate_predictions_def)

theorem evaluate_predictions_no_examples_witness:
  "evaluate_predictions [] [[None], []] 3 (\<lambda>ts ps. Fin 1) ''regression'' (None :: unit option)
     = Inr ([NaN, NaN, NaN], [])
   \<and> (0::int) \<le> 3 \<and> int (length (replicate (nat 3) NaN)) = 3"
  using evaluate_predictions_no_examples
    [of "[[None], []]" 3 "\<lambda>ts ps. Fin 1" "''regression''" "None :: unit option"]
  by (simp add: numeral_3_eq_3)

text \<open>
  C3. The specification omits, for regression, the result of a task all of whose targets
  are missing. On two examples and two tasks where every target of task 0 is missing and
  none of task 1 is, the source scores both tasks on the shared lists: the result has two
  elements, although task 0 has no valid target.
\<close>

theorem regression_missing_task_not_omitted:
  "evaluate_predictions [[Fin 1, Fin 2], [Fin 3, Fin 4]]
       [[None, Some (Fin 5)], [None, Some (Fin 6)]] 2 f ''regression'' lg
     = Inr ([f [Fin 5, Fin 6] [Fin 2, Fin 4], f [Fin 5, Fin 6] [Fin 2, Fin 4]],
            [Metric_called [Fin 5, Fin 6] [Fin 2, Fin 4],
             Metric_called [Fin 5, Fin 6] [Fin 2, Fin 4]])
   \<and> spec_valid_targets [[Fin 1, Fin 2], [Fin 3, Fin 4]]
        [[None, Some (Fin 5)], [None, Some (Fin 6)]] 0 = []"
  by (simp add: run_simps)

text \<open>
  C4. The specification's example: \<^verbatim>\<open>preds = [[1.0, 2.0]]\<close>,
  \<^verbatim>\<open>targets = [[1.0, None]]\<close>, two tasks, regression. For every metric function \<open>f\<close> the
  source returns the two-element list \<open>[f [1] [1], f [1] [1]]\<close> and calls \<open>f\<close> twice: task 1
  is scored on the pair of task 0 rather than omitted.
\<close>

theorem spec_example_scores_twice:
  "evaluate_predictions [[Fin 1, Fin 2]] [[Some (Fin 1), None]] 2 f ''regression'' lg
     = Inr ([f [Fin 1] [Fin 1], f [Fin 1] [Fin 1]],
            [Metric_called [Fin 1] [Fin 1], Metric_called [Fin 1] [Fin 1]])"
  by (simp add: run_simps)

text \<open>
  C5. The specification records a not-a-number sentinel for a classification task whose
  valid targets are all 0. On two examples and two tasks where both targets of task 0 are
  0, the source finds neither the shared targets \<open>[0, 0, 1, 0]\<close> nor the shared
  predictions \<open>[0, 1, 1, 0]\<close> degenerate, and calls the metric function for both tasks:
  no warning, no sentinel.
\<close>

theorem classification_guard_misses_task:
  "evaluate_predictions [[Fin 0, Fin 1], [Fin 1, Fin 0]]
       [[Some (Fin 0), Some (Fin 1)], [Some (Fin 0), Some (Fin 0)]] 2 f ''classification'' lg
     = Inr ([f [Fin 0, Fin 0, Fin 1, Fin 0] [Fin 0, Fin 1, Fin 1, Fin 0],
             f [Fin 0, Fin 0, Fin 1, Fin 0] [Fin 0, Fin 1, Fin 1, Fin 0]],
            [Metric_called [Fin 0, Fin 0, Fin 1, Fin 0] [Fin 0, Fin 1, Fin 1, Fin 0],
             Metric_called [Fin 0, Fin 0, Fin 1, Fin 0] [Fin 0, Fin 1, Fin 1, Fin 0]])
   \<and> spec_valid_targets [[Fin 0, Fin 1], [Fin 1, Fin 0]]
       [[Some (Fin 0), Some (Fin 1)], [Some (Fin 0), Some (Fin 0)]] 0 = [Fin 0, Fin 0]"
  by (simp add: run_simps)

text \<open>
  C9. A classification task whose own valid-target list is empty should get the
  not-a-number sentinel, since the all-zeros test holds of the empty list and comes
  before the test for emptiness. On two examples and two tasks where every target of
  task 0 is missing and task 1 has the targets \<open>[1, 0]\<close> with predictions \<open>[0.5, 0]\<close>,
  the loop reads for task 0 the shared lists, finds them neither empty nor degenerate, and
  scores task 0 with the metric function: no sentinel and no warning, although task 0 has
  no valid target.
\<close>

theorem classification_missing_task_scored:
  "evaluate_predictions [[Fin 0, Fin (1 / 2)], [Fin 0, Fin 0]]
       [[None, Some (Fin 1)], [None, Some (Fin 0)]] 2 f ''classification'' lg
     = Inr ([f [Fin 1, Fin 0] [Fin (1 / 2), Fin 0], f [Fin 1, Fin 0] [Fin (1 / 2), Fin 0]],
            [Metric_called [Fin 1, Fin 0] [Fin (1 / 2), Fin 0],
             Metric_called [Fin 1, Fin 0] [Fin (1 / 2), Fin 0]])
   \<and> spec_valid_targets [[Fin 0, Fin (1 / 2)], [Fin 0, Fin 0]]
        [[None, Some (Fin 1)], [None, Some (Fin 0)]] 0 = []"
  by (simp add: run_simps)

section \<open>evaluate\<close>

text \<open>
  C8. \<^verbatim>\<open>evaluate\<close> returns what \<^verbatim>\<open>evaluate_predictions\<close> returns on the predictions and on
  the \<^verbatim>\<open>targets\<close> attribute of the data loader, unchanged. When every batch converts
  (to the inputs \<open>gs\<close>) and the model returns on each of them (the outputs \<open>outs\<close>), the
  predictions are the outputs in batch order, un-scaled when a scaler is given. When the
  batches before \<open>b\<close> convert and are predicted, and the conversion of \<open>b\<close> or the model
  on its input raises \<open>e\<close>, then \<^verbatim>\<open>evaluate\<close> raises \<open>e\<close>.
\<close>

theorem evaluate_delegates:
  "(map batch_graph (batches dl) = map Inr gs \<and> map m gs = map Inr outs \<longrightarrow>
      evaluate m dl T f d sc lg
        = evaluate_predictions (unscale sc (concat outs)) (targets dl) T f d lg)
   \<and> (batches dl = pre @ b # post \<and> map batch_graph pre = map Inr gs \<and> map m gs = map Inr outs
        \<and> (batch_graph b = Inl e \<or> (\<exists>g. batch_graph b = Inr g \<and> m g = Inl e)) \<longrightarrow>
      evaluate m dl T f d sc lg = Inl e)"
proof (intro conjI impI)
  assume "map batch_graph (batches dl) = map Inr gs \<and> map m gs = map Inr outs"
  then have "run_batches m (batch_graphs dl) = Inr (concat outs)"
    by (simp add: batch_graphs_def run_batches_all)
  then show "evaluate m dl T f d sc lg
        = evaluate_predictions (unscale sc (concat outs)) (targets dl) T f d lg"
    by (simp add: evaluate_def predict_def)
next
  assume a: "batches dl = pre @ b # post \<and> map batch_graph pre = map Inr gs
      \<and> map m gs = map Inr outs
      \<and> (batch_graph b = Inl e \<or> (\<exists>g. batch_graph b = Inr g \<and> m g = Inl e))"
  then have "batch_graphs dl = map Inr gs @ batch_graph b # map batch_graph post"
    by (simp add: batch_graphs_def)
  then have "run_batches m (batch_graphs dl) = Inl e"
    using a run_batches_first_failure[of m gs outs "batch_graph b" e] by simp
  then show "evaluate m dl T f d sc lg = Inl e"
    by (simp add: evaluate_def predict_def)
qed

theorem evaluate_delegates_witness:
  "map batch_graph
       (batches \<lparr>batches = [\<lparr>batch_graph = Inr (0::nat)\<rparr>, \<lparr>batch_graph = Inr 1\<rparr>],
                targets = [[Some (Fin 1)], [None]]\<rparr>)
     = map Inr [0, 1]
   \<and> map (\<lambda>g. if g = 5 then Inl (Raised ''model'') else Inr [[Fin 2]]) [0::nat, 1]
       = map Inr [[[Fin 2]], [[Fin 2]]]
   \<and> evaluate (\<lambda>g. if g = 5 then Inl (Raised ''model'') else Inr [[Fin 2]])
         \<lparr>batches = [\<lparr>batch_graph = Inr (0::nat)\<rparr>, \<lparr>batch_graph = Inr 1\<rparr>],
          targets = [[Some (Fin 1)], [None]]\<rparr>
         1 (\<lambda>ts ps. Fin 3) ''regression'' None (None :: unit option)
       = Inr ([Fin 3], [Metric_called [Fin 1] [Fin 2]])
   \<and> evaluate (\<lambda>g. if g = 5 then Inl (Raised ''model'') else Inr [[Fin 2]])
         \<lparr>batches = [\<lparr>batch_graph = Inr (0::nat)\<rparr>, \<lparr>batch_graph = Inl (Raised ''batch'')\<rparr>,
                     \<lparr>batch_graph = Inr 1\<rparr>],
          targets = [[Some (Fin 1)], [None]]\<rparr>
         1 (\<lambda>ts ps. Fin 3) ''regression'' None (None :: unit option)
       = Inl (Raised ''batch'')
   \<and> evaluate (\<lambda>g. if g = 5 then Inl (Raised ''model'') else Inr [[Fin 2]])
         \<lparr>batches = [\<lparr>batch_graph = Inr (0::nat)\<rparr>, \<lparr>batch_graph = Inr 5\<rparr>],
          targets = [[Some (Fin 1)], [None]]\<rparr>
         1 (\<lambda>ts ps. Fin 3) ''regression'' None (None :: unit option)
       = Inl (Raised ''model'')"
proof -
  let ?m = "\<lambda>g::nat. if g = 5 then Inl (Raised ''model'') else Inr [[Fin 2]]"
  let ?G = "[[Some (Fin 1)], [None]]"
  let ?ok = "\<lparr>batches = [\<lparr>batch_graph = Inr (0::nat)\<rparr>, \<lparr>batch_graph = Inr 1\<rparr>], targets = ?G\<rparr>"
  let ?bad = "\<lparr>batches = [\<lparr>batch_graph = Inr (0::nat)\<rparr>, \<lparr>batch_graph = Inl (Raised ''batch'')\<rparr>,
                         \<lparr>batch_graph = Inr 1\<rparr>], targets = ?G\<rparr>"
  let ?worse = "\<lparr>batches = [\<lparr>batch_graph = Inr (0::nat)\<rparr>, \<lparr>batch_graph = Inr 5\<rparr>],
                 targets = ?G\<rparr>"
  have h1: "map batch_graph (batches ?ok) = map Inr [0, 1]" by simp
  have h2: "map ?m [0, 1] = map Inr [[[Fin 2]], [[Fin 2]]]" by simp
  have ep: "evaluate_predictions [[Fin 2], [Fin 2]] ?G 1 (\<lambda>ts ps. Fin 3) ''regression''
              (None :: unit option) = Inr ([Fin 3], [Metric_called [Fin 1] [Fin 2]])"
    by (simp add: run_simps)
  have ok: "evaluate ?m ?ok 1 (\<lambda>ts ps. Fin 3) ''regression'' None (None :: unit option)
              = Inr ([Fin 3], [Metric_called [Fin 1] [Fin 2]])"
    using evaluate_delegates [where dl = ?ok and gs = "[0, 1]" and m = ?m
        and outs = "[[[Fin 2]], [[Fin 2]]]" and T = 1 and f = "\<lambda>ts ps. Fin 3"
        and d = "''regression''" and sc = None and lg = "None :: unit option"] h1 h2 ep
    by (simp add: unscale_def)
  have bad: "evaluate ?m ?bad 1 (\<lambda>ts ps. Fin 3) ''regression'' None (None :: unit option)
               = Inl (Raised ''batch'')"
    using evaluate_delegates [where dl = ?bad and pre = "[\<lparr>batch_graph = Inr 0\<rparr>]"
        and b = "\<lparr>batch_graph = Inl (Raised ''batch'')\<rparr>"
        and post = "[\<lparr>batch_graph = Inr 1\<rparr>]" and gs = "[0]" and m = ?m
        and outs = "[[[Fin 2]]]" and e = "Raised ''batch''" and T = 1
        and f = "\<lambda>ts ps. Fin 3" and d = "''regression''" and sc = None
        and lg = "None :: unit option"]
    by simp
  have worse: "evaluate ?m ?worse 1 (\<lambda>ts ps. Fin 3) ''regression'' None (None :: unit option)
               = Inl (Raised ''model'')"
    using evaluate_delegates [where dl = ?worse and pre = "[\<lparr>batch_graph = Inr 0\<rparr>]"
        and b = "\<lparr>batch_graph = Inr 5\<rparr>" and post = "[]" and gs = "[0]" and m = ?m
        and outs = "[[[Fin 2]]]" and e = "Raised ''model''" and T = 1
        and f = "\<lambda>ts ps. Fin 3" and d = "''regression''" and sc = None
        and lg = "None :: unit option"]
    by simp
  show ?thesis using h1 h2 ok bad worse by simp
qed

section \<open>The factory\<close>

text \<open>
  C6, as the claim has it, fails where the model key is \<^verbatim>\<open>"nn"\<close> and the keyword
  arguments carry a \<^verbatim>\<open>conf_method\<close> the family does not know: \<^verbatim>\<open>model\<close> returns no
  instance of the feed-forward family, it raises the error of \<^verbatim>\<open>nn\<close>, whose message names
  the confidence method.
\<close>

theorem model_nn_bogus_conf_method:
  "model ''nn'' \<lparr>conf_method = Some (Some ''bogus''), others = ([] :: (string \<times> unit) list)\<rparr>
     = Inl (NotImplementedError (''Unrecognized NN confidence method: '' @ quoted ''bogus''))"
  by (simp add: model_def nn_def nn_classes_def bound_conf_method_def)

text \<open>
  C6, amended. \<^verbatim>\<open>model(s, ...)\<close> returns an instance of the random-forest class for
  \<^verbatim>\<open>"rf"\<close> and of the Gaussian-process class for \<^verbatim>\<open>"gp"\<close>, built from the keyword
  arguments as they are; for \<^verbatim>\<open>"nn"\<close> and \<^verbatim>\<open>"mpn"\<close> it returns an instance of the
  feed-forward, respectively message-passing, family provided the keyword arguments are
  ones the family's factory accepts; and for every other string it raises
  \<^verbatim>\<open>NotImplementedError\<close> with the message \<^verbatim>\<open>Unrecognized model: "s"\<close>, constructing
  nothing.
\<close>

theorem model_dispatch:
  "(m = ''rf'' \<longrightarrow> model m kw = Inr (Instance RFModel kw))
   \<and> (m = ''gp'' \<longrightarrow> model m kw = Inr (Instance GPModel kw))
   \<and> (m = ''nn'' \<and> accepted nn_classes kw \<longrightarrow>
        (\<exists>inst. model m kw = Inr inst \<and> family_of (class_of inst) = Feed_forward_nn))
   \<and> (m = ''mpn'' \<and> accepted mpn_classes kw \<longrightarrow>
        (\<exists>inst. model m kw = Inr inst \<and> family_of (class_of inst) = Message_passing_nn))
   \<and> (m \<notin> {''rf'', ''gp'', ''nn'', ''mpn''} \<longrightarrow>
        model m kw = Inl (NotImplementedError (''Unrecognized model: '' @ quoted m)))"
  using nn_accepted[of kw] mpn_accepted[of kw] by (simp add: model_def)

theorem model_dispatch_witness:
  "model ''rf'' \<lparr>conf_method = None, others = [(''n_estimators'', 100::int)]\<rparr>
     = Inr (Instance RFModel \<lparr>conf_method = None, others = [(''n_estimators'', 100)]\<rparr>)
   \<and> model ''gp'' \<lparr>conf_method = None, others = [(''n_estimators'', 100::int)]\<rparr>
     = Inr (Instance GPModel \<lparr>conf_method = None, others = [(''n_estimators'', 100)]\<rparr>)
   \<and> accepted nn_classes \<lparr>conf_method = Some (Some ''dropout''), others = [] :: (string \<times> int) list\<rparr>
   \<and> (\<exists>inst. model ''nn'' \<lparr>conf_method = Some (Some ''dropout''),
                            others = [] :: (string \<times> int) list\<rparr> = Inr inst
         \<and> family_of (class_of inst) = Feed_forward_nn)
   \<and> accepted mpn_classes \<lparr>conf_method = Some None, others = [] :: (string \<times> int) list\<rparr>
   \<and> (\<exists>inst. model ''mpn'' \<lparr>conf_method = Some None, others = [] :: (string \<times> int) list\<rparr>
                = Inr inst
         \<and> family_of (class_of inst) = Message_passing_nn)
   \<and> ''bogus'' \<notin> {''rf'', ''gp'', ''nn'', ''mpn''}
   \<and> model ''bogus'' \<lparr>conf_method = None, others = [] :: (string \<times> int) list\<rparr>
       = Inl (NotImplementedError (''Unrecognized model: '' @ quoted ''bogus''))"
proof -
  have a1: "accepted nn_classes
              \<lparr>conf_method = Some (Some ''dropout''), others = [] :: (string \<times> int) list\<rparr>"
    by (simp add: accepted_def bound_conf_method_def nn_classes_def)
  have a2: "accepted mpn_classes \<lparr>conf_method = Some None, others = [] :: (string \<times> int) list\<rparr>"
    by (simp add: accepted_def bound_conf_method_def)
  show ?thesis
    using a1 a2
      model_dispatch [of "''rf''" "\<lparr>conf_method = None, others = [(''n_estimators'', 100::int)]\<rparr>"]
      model_dispatch [of "''gp''" "\<lparr>conf_method = None, others = [(''n_estimators'', 100::int)]\<rparr>"]
      model_dispatch [of "''nn''"
        "\<lparr>conf_method = Some (Some ''dropout''), others = [] :: (string \<times> int) list\<rparr>"]
      model_dispatch [of "''mpn''" "\<lparr>conf_method = Some None, others = [] :: (string \<times> int) list\<rparr>"]
      model_dispatch [of "''bogus''" "\<lparr>conf_method = None, others = [] :: (string \<times> int) list\<rparr>"]
    by simp
qed

text \<open>
  C7. \<^verbatim>\<open>nn\<close> and \<^verbatim>\<open>mpn\<close>: no \<^verbatim>\<open>conf_method\<close> or \<^verbatim>\<open>"none"\<close> gives the base class,
  \<^verbatim>\<open>"dropout"\<close> the dropout class, \<^verbatim>\<open>"twooutput"\<close> and \<^verbatim>\<open>"mve"\<close> both the two-output
  class, \<^verbatim>\<open>"ensemble"\<close> the ensemble class for \<^verbatim>\<open>nn\<close> only; every other string (for
  \<^verbatim>\<open>mpn\<close>, \<^verbatim>\<open>"ensemble"\<close> too) raises \<^verbatim>\<open>NotImplementedError\<close> with a message that names
  the confidence method.
\<close>

theorem conf_method_dispatch:
  "nn None kw = Inr (Instance NNModel \<lparr>conf_method = None, others = kw\<rparr>)
   \<and> nn (Some ''none'') kw
       = Inr (Instance NNModel \<lparr>conf_method = Some (Some ''none''), others = kw\<rparr>)
   \<and> nn (Some ''dropout'') kw
       = Inr (Instance NNDropoutModel \<lparr>conf_method = Some (Some ''dropout''), others = kw\<rparr>)
   \<and> nn (Some ''twooutput'') kw
       = Inr (Instance NNTwoOutputModel \<lparr>conf_method = Some (Some ''twooutput''), others = kw\<rparr>)
   \<and> nn (Some ''mve'') kw
       = Inr (Instance NNTwoOutputModel \<lparr>conf_method = Some (Some ''mve''), others = kw\<rparr>)
   \<and> nn (Some ''ensemble'') kw
       = Inr (Instance NNEnsembleModel \<lparr>conf_method = Some (Some ''ensemble''), others = kw\<rparr>)
   \<and> (s \<notin> {''dropout'', ''ensemble'', ''twooutput'', ''mve'', ''none''} \<longrightarrow>
        nn (Some s) kw
          = Inl (NotImplementedError (''Unrecognized NN confidence method: '' @ quoted s)))
   \<and> mpn None kw = Inr (Instance MPNModel \<lparr>conf_method = None, others = kw\<rparr>)
   \<and> mpn (Some ''none'') kw
       = Inr (Instance MPNModel \<lparr>conf_method = Some (Some ''none''), others = kw\<rparr>)
   \<and> mpn (Some ''dropout'') kw
       = Inr (Instance MPNDropoutModel \<lparr>conf_method = Some (Some ''dropout''), others = kw\<rparr>)
   \<and> mpn (Some ''twooutput'') kw
       = Inr (Instance MPNTwoOutputModel \<lparr>conf_method = Some (Some ''twooutput''), others = kw\<rparr>)
   \<and> mpn (Some ''mve'') kw
       = Inr (Instance MPNTwoOutputModel \<lparr>conf_method = Some (Some ''mve''), others = kw\<rparr>)
   \<and> mpn (Some ''ensemble'') kw
       = Inl (NotImplementedError (''Unrecognized MPN confidence method: '' @ quoted ''ensemble''))
   \<and> (s \<notin> {''dropout'', ''twooutput'', ''mve'', ''none''} \<longrightarrow>
        mpn (Some s) kw
          = Inl (NotImplementedError (''Unrecognized MPN confidence method: '' @ quoted s)))"
  by (simp add: nn_def mpn_def nn_classes_def mpn_classes_def)

theorem conf_method_dispatch_witness:
  "''bogus'' \<notin> {''dropout'', ''ensemble'', ''twooutput'', ''mve'', ''none''}
   \<and> nn (Some ''bogus'') ([] :: (string \<times> int) list)
       = Inl (NotImplementedError (''Unrecognized NN confidence method: '' @ quoted ''bogus''))
   \<and> ''bogus'' \<notin> {''dropout'', ''twooutput'', ''mve'', ''none''}
   \<and> mpn (Some ''bogus'') ([] :: (string \<times> int) list)
       = Inl (NotImplementedError (''Unrecognized MPN confidence method: '' @ quoted ''bogus''))"
  using conf_method_dispatch [of "[] :: (string \<times> int) list" "''bogus''"]
  by simp

end
